theory Spec2Isabelle
  imports Main
begin

section \<open>TinyGraph: the graph engine of tinygraph-ts\<close>

text \<open>
  A shallow embedding of the class \<^verbatim>\<open>Graph<T>\<close> (the engine source, 208 lines):
  the private \<^verbatim>\<open>applyPatch\<close>, the builder methods \<^verbatim>\<open>edge\<close>, \<^verbatim>\<open>node\<close> and \<^verbatim>\<open>setStart\<close>,
  the read accessors, and the execution methods \<^verbatim>\<open>step\<close> and \<^verbatim>\<open>run\<close>.

  Conventions of the embedding.
  \<^item> A context object is a map from property names to values of an arbitrary type \<open>'v\<close>;
    the object spread \<^verbatim>\<open>{...a, ...b}\<close> is \<open>a ++ b\<close>.
  \<^item> Node methods and function patches are JavaScript functions: they may read and change
    anything outside the graph object (their own fields, services, counters) and they may
    throw. That outside state is a value of an arbitrary type \<open>'w\<close>, carried in the field
    \<open>world\<close> and threaded through every call in the order the source makes the calls. A
    function that is never called leaves \<open>world\<close> as it was.
  \<^item> A thrown exception, and the rejection of the promise of an \<^verbatim>\<open>async\<close> method, is the
    left injection of a sum; the state the object is left in is returned beside it.
  \<^item> \<^verbatim>\<open>await\<close> is sequencing: the engine runs one call at a time.
  \<^item> The calls of \<^verbatim>\<open>debug\<close> and \<^verbatim>\<open>console.error\<close> only print and are left out, but
    not their arguments: each \<^verbatim>\<open>JSON.stringify(...)\<close> inside a template literal is
    evaluated whether or not debugging is on, and it throws a \<^verbatim>\<open>TypeError\<close> on a value
    such as a \<^verbatim>\<open>BigInt\<close> or a cyclic object. Which values it accepts is a parameter
    \<open>json\<close> of the execution methods.
  \<^item> Nodes do not call the builder methods of the graph that runs them.
\<close>

subsection \<open>Data\<close>

type_synonym 'v ctx = "string \<Rightarrow> 'v option"

text \<open>What a \<^verbatim>\<open>throw\<close> carries: the two \<^verbatim>\<open>new Error(message)\<close> of the source, the
  \<^verbatim>\<open>TypeError\<close> of the runtime on a property read of \<^verbatim>\<open>undefined\<close>, or any value thrown by
  a node or a function patch.\<close>

datatype 'v exn = Error string | TypeError | Thrown 'v

text \<open>\<^verbatim>\<open>type Patch<T> = Partial<Ctx<T>> | PatchFn<T>\<close>.\<close>

datatype ('v, 'w) patch =
    Static "'v ctx"
  | PatchFn "'w \<Rightarrow> 'v ctx \<Rightarrow> ('v exn + 'v ctx) \<times> 'w"

text \<open>\<^verbatim>\<open>type RunResult<T> = { context?: Patch<T>; transition?: string }\<close>.\<close>

datatype ('v, 'w) runResult =
  RunResult (res_context: "('v, 'w) patch option") (res_transition: "string option")

text \<open>What \<^verbatim>\<open>await node.next(...)\<close> yields: a rejection or throw, \<^verbatim>\<open>undefined\<close>
  (the \<^verbatim>\<open>void\<close> cases of \<^verbatim>\<open>NodeRes<T>\<close>), or a \<^verbatim>\<open>RunResult\<close>.\<close>

datatype ('v, 'w) nodeRes = Rejects "'v exn" | Void | Result "('v, 'w) runResult"

text \<open>The method \<^verbatim>\<open>next(state, transitions)\<close> of the interface \<^verbatim>\<open>Node<T>\<close>.\<close>

type_synonym ('v, 'w) Node = "'w \<Rightarrow> 'v ctx \<Rightarrow> string list \<Rightarrow> ('v, 'w) nodeRes \<times> 'w"

text \<open>
  The four private fields of \<^verbatim>\<open>Graph<T>\<close>, and \<open>world\<close>. A \<^verbatim>\<open>Set<string>\<close> is the list of
  its members in insertion order (the order \<^verbatim>\<open>Array.from\<close> reads them in), without
  repetition. The \<^verbatim>\<open>node\<close> of \<^verbatim>\<open>_currentNode\<close> is what \<^verbatim>\<open>Map.get\<close> returned: \<open>None\<close> is
  \<^verbatim>\<open>undefined\<close>, which the non-null assertion \<^verbatim>\<open>!\<close> does not check at run time.
\<close>

record ('v, 'w) graph =
  g_context :: "'v ctx"
  g_currentNode :: "(('v, 'w) Node option \<times> string) option"
  g_transitions :: "string \<Rightarrow> string list option"
  g_nodes :: "string \<Rightarrow> ('v, 'w) Node option"
  world :: 'w

text \<open>The constructor: empty context, no current node, empty maps.\<close>

definition new_graph :: "'w \<Rightarrow> ('v, 'w) graph" where
  "new_graph w =
     \<lparr>g_context = Map.empty, g_currentNode = None, g_transitions = Map.empty,
      g_nodes = Map.empty, world = w\<rparr>"

subsection \<open>applyPatch\<close>

fun applyPatch :: "'v ctx \<Rightarrow> ('v, 'w) patch option \<Rightarrow> 'w \<Rightarrow> ('v exn + 'v ctx) \<times> 'w" where
  "applyPatch c None w = (Inr c, w)"
| "applyPatch c (Some (PatchFn f)) w =
     (case f w c of
        (Inl e, w') \<Rightarrow> (Inl e, w')
      | (Inr p, w') \<Rightarrow> (Inr (c ++ p), w'))"
| "applyPatch c (Some (Static p)) w = (Inr (c ++ p), w)"

subsection \<open>JSON.stringify\<close>

text \<open>
  \<open>json v\<close> says that \<^verbatim>\<open>JSON.stringify\<close> returns on the value \<open>v\<close>. On an object it
  serialises the values of the properties, so it returns when it returns on each of
  them. Applied to \<^verbatim>\<open>undefined\<close> or to a function it returns \<^verbatim>\<open>undefined\<close>.
\<close>

definition stringifiable :: "('v \<Rightarrow> bool) \<Rightarrow> 'v ctx \<Rightarrow> bool" where
  "stringifiable json c = (ran c \<subseteq> Collect json)"

fun stringifiable_patch :: "('v \<Rightarrow> bool) \<Rightarrow> ('v, 'w) patch option \<Rightarrow> bool" where
  "stringifiable_patch json None = True"
| "stringifiable_patch json (Some (PatchFn f)) = True"
| "stringifiable_patch json (Some (Static p)) = stringifiable json p"

subsection \<open>Read accessors\<close>

definition get_context :: "('v, 'w) graph \<Rightarrow> 'v ctx" where
  "get_context g = g_context g"

definition current :: "('v, 'w) graph \<Rightarrow> string option" where
  "current g = map_option snd (g_currentNode g)"

text \<open>\<^verbatim>\<open>this._transitions.get(this._currentNode!.key)\<close>: reading \<^verbatim>\<open>key\<close> of \<^verbatim>\<open>undefined\<close>
  throws a \<^verbatim>\<open>TypeError\<close>; \<^verbatim>\<open>Map.get\<close> of an absent key is \<^verbatim>\<open>undefined\<close>.\<close>

definition availableTransitions :: "('v, 'w) graph \<Rightarrow> 'v exn + string list option" where
  "availableTransitions g =
     (case g_currentNode g of
        None \<Rightarrow> Inl TypeError
      | Some (nd, key) \<Rightarrow> Inr (g_transitions g key))"

subsection \<open>Builder methods\<close>

text \<open>\<^verbatim>\<open>Set.add\<close>: a member already present stays where it is.\<close>

definition set_add :: "string \<Rightarrow> string list \<Rightarrow> string list" where
  "set_add r s = (if r \<in> set s then s else s @ [r])"

definition edge :: "string \<Rightarrow> string \<Rightarrow> ('v, 'w) graph \<Rightarrow> ('v, 'w) graph" where
  "edge l r g =
     (case g_transitions g l of
        None \<Rightarrow> g\<lparr>g_transitions := (g_transitions g)(l \<mapsto> [r])\<rparr>
      | Some existing \<Rightarrow> g\<lparr>g_transitions := (g_transitions g)(l \<mapsto> set_add r existing)\<rparr>)"

definition node :: "string \<Rightarrow> ('v, 'w) Node \<Rightarrow> ('v, 'w) graph \<Rightarrow> ('v, 'w) graph" where
  "node key toAdd g = g\<lparr>g_nodes := (g_nodes g)(key \<mapsto> toAdd)\<rparr>"

text \<open>\<^verbatim>\<open>setStart\<close> is synchronous: the left injection is the \<^verbatim>\<open>Error\<close> it throws.\<close>

definition setStart :: "string \<Rightarrow> ('v, 'w) graph \<Rightarrow> ('v exn + unit) \<times> ('v, 'w) graph" where
  "setStart nodeName g =
     (if g_nodes g nodeName = None
      then (Inl (Error (''Cannot start from node that has not been registered in graph. '' @
                        ''Start should be after adding nodes.'')), g)
      else (Inr (), g\<lparr>g_currentNode := Some (g_nodes g nodeName, nodeName)\<rparr>))"

subsection \<open>step and run\<close>

text \<open>
  The body of the \<^verbatim>\<open>try\<close> block of \<^verbatim>\<open>step\<close>. \<open>Inl e\<close>: \<open>e\<close> was thrown inside the block;
  \<open>Inr False\<close>: one of the \<^verbatim>\<open>return false\<close> inside it; \<open>Inr True\<close>: the block ran to its end
  (the \<^verbatim>\<open>return true\<close> after it). With no current node the optional chain
  \<^verbatim>\<open>this._currentNode?.node.next(...)\<close> is \<^verbatim>\<open>undefined\<close> and its arguments are not
  evaluated. \<^verbatim>\<open>JSON.stringify(patch)\<close> (line 152) runs before the merge, and
  \<^verbatim>\<open>JSON.stringify(this._context)\<close> (line 158) after it and before the transition is
  looked at. \<^verbatim>\<open>!transition\<close> holds for \<^verbatim>\<open>undefined\<close> and for the empty string.
\<close>

definition step_try :: "('v \<Rightarrow> bool) \<Rightarrow> ('v, 'w) graph \<Rightarrow> ('v exn + bool) \<times> ('v, 'w) graph" where
  "step_try json g =
     (case g_currentNode g of
        None \<Rightarrow> (Inr False, g)
      | Some (nd, key) \<Rightarrow>
          (case nd of
             None \<Rightarrow> (Inl TypeError, g)
           | Some nxt \<Rightarrow>
               (case availableTransitions g of
                  Inl e \<Rightarrow> (Inl e, g)
                | Inr avail \<Rightarrow>
                    (case nxt (world g) (g_context g) (case avail of None \<Rightarrow> [] | Some s \<Rightarrow> s) of
                       (Rejects e, w1) \<Rightarrow> (Inl e, g\<lparr>world := w1\<rparr>)
                     | (Void, w1) \<Rightarrow> (Inr False, g\<lparr>world := w1\<rparr>)
                     | (Result res, w1) \<Rightarrow>
                         if \<not> stringifiable_patch json (res_context res)
                         then (Inl TypeError, g\<lparr>world := w1\<rparr>)
                         else
                         (case (case res_context res of
                                  None \<Rightarrow> (Inr (g_context g), w1)
                                | Some p \<Rightarrow> applyPatch (g_context g) (Some p) w1) of
                            (Inl e, w2) \<Rightarrow> (Inl e, g\<lparr>world := w2\<rparr>)
                          | (Inr c2, w2) \<Rightarrow>
                              if \<not> stringifiable json c2
                              then (Inl TypeError, g\<lparr>g_context := c2, world := w2\<rparr>)
                              else
                              (case res_transition res of
                                 None \<Rightarrow> (Inr False, g\<lparr>g_context := c2, world := w2\<rparr>)
                               | Some t \<Rightarrow>
                                   if t = []
                                   then (Inr False, g\<lparr>g_context := c2, world := w2\<rparr>)
                                   else
                                     (case g_transitions g key of
                                        None \<Rightarrow>
                                          (Inl (Error (''Invalid transition from '' @ key @ '' > '' @ t)),
                                           g\<lparr>g_context := c2, world := w2\<rparr>)
                                      | Some neighbors \<Rightarrow>
                                          if t \<in> set neighbors
                                          then (Inr True,
                                                g\<lparr>g_context := c2,
                                                  g_currentNode := Some (g_nodes g t, t),
                                                  world := w2\<rparr>)
                                          else
                                            (Inl (Error (''Invalid transition from '' @ key @ '' > '' @ t)),
                                             g\<lparr>g_context := c2, world := w2\<rparr>))))))))"

text \<open>
  \<^verbatim>\<open>step(context?)\<close>: the patch is applied (line 137) and the new context is serialised
  (line 138) before the \<^verbatim>\<open>try\<close>: a throw there rejects the promise of \<^verbatim>\<open>step\<close>, with the
  assignment to \<^verbatim>\<open>this._context\<close> already made in the second case. Whatever is thrown
  inside the \<^verbatim>\<open>try\<close> is caught, printed, and answered with \<^verbatim>\<open>false\<close>.
\<close>

definition step ::
  "('v \<Rightarrow> bool) \<Rightarrow> ('v, 'w) patch option \<Rightarrow> ('v, 'w) graph \<Rightarrow> ('v exn + bool) \<times> ('v, 'w) graph" where
  "step json patch g =
     (case applyPatch (g_context g) patch (world g) of
        (Inl e, w1) \<Rightarrow> (Inl e, g\<lparr>world := w1\<rparr>)
      | (Inr c1, w1) \<Rightarrow>
          if \<not> stringifiable json c1
          then (Inl TypeError, g\<lparr>g_context := c1, world := w1\<rparr>)
          else
          (case step_try json (g\<lparr>g_context := c1, world := w1\<rparr>) of
             (Inl err, g') \<Rightarrow> (Inr False, g')
           | (Inr b, g') \<Rightarrow> (Inr b, g')))"

text \<open>
  \<^verbatim>\<open>while (await this.step(context)) {}\<close> followed by \<^verbatim>\<open>return this._context\<close>. The loop
  need not end, so it is a partial function: \<open>None\<close> is a promise that never settles,
  \<open>Some (Inl e, g')\<close> a rejection, \<open>Some (Inr c, g')\<close> the resolution with \<open>c\<close>.
\<close>

partial_function (option) run_loop ::
  "('v \<Rightarrow> bool) \<Rightarrow> ('v, 'w) patch option \<Rightarrow> ('v, 'w) graph
     \<Rightarrow> (('v exn + 'v ctx) \<times> ('v, 'w) graph) option" where
  "run_loop json patch g =
     (case step json patch g of
        (Inl e, g') \<Rightarrow> Some (Inl e, g')
      | (Inr b, g') \<Rightarrow> if b then run_loop json patch g' else Some (Inr (g_context g'), g'))"

text \<open>\<^verbatim>\<open>run(context?)\<close>: the merge of line 119, the \<^verbatim>\<open>JSON.stringify\<close> of line 120, the loop.\<close>

definition run ::
  "('v \<Rightarrow> bool) \<Rightarrow> ('v, 'w) patch option \<Rightarrow> ('v, 'w) graph
     \<Rightarrow> (('v exn + 'v ctx) \<times> ('v, 'w) graph) option" where
  "run json patch g =
     (case applyPatch (g_context g) patch (world g) of
        (Inl e, w1) \<Rightarrow> Some (Inl e, g\<lparr>world := w1\<rparr>)
      | (Inr c1, w1) \<Rightarrow>
          if \<not> stringifiable json c1
          then Some (Inl TypeError, g\<lparr>g_context := c1, world := w1\<rparr>)
          else run_loop json patch (g\<lparr>g_context := c1, world := w1\<rparr>))"

section \<open>Vocabulary of the properties\<close>

text \<open>
  Shallow merge in the words of the specification: every key of the patch is overwritten,
  every other key keeps the value it has in the context. It is compared below with the
  object spread that \<open>applyPatch\<close> performs.
\<close>

definition shallow_merge :: "'v ctx \<Rightarrow> 'v ctx \<Rightarrow> 'v ctx" where
  "shallow_merge c p = (\<lambda>k. if k \<in> dom p then p k else c k)"



text \<open>
  \<^verbatim>\<open>run\<close> in the words of the specification and of the comment above \<^verbatim>\<open>step\<close> in the
  source ("only pass the initial context on the first invocation"): the initial patch is
  merged once, and every step is made with no patch.
\<close>

definition run_merge_once ::
  "('v \<Rightarrow> bool) \<Rightarrow> ('v, 'w) patch option \<Rightarrow> ('v, 'w) graph
     \<Rightarrow> (('v exn + 'v ctx) \<times> ('v, 'w) graph) option" where
  "run_merge_once json patch g =
     (case applyPatch (g_context g) patch (world g) of
        (Inl e, w1) \<Rightarrow> Some (Inl e, g\<lparr>world := w1\<rparr>)
      | (Inr c1, w1) \<Rightarrow>
          if \<not> stringifiable json c1
          then Some (Inl TypeError, g\<lparr>g_context := c1, world := w1\<rparr>)
          else run_loop json None (g\<lparr>g_context := c1, world := w1\<rparr>))"

subsection \<open>Example values, nodes, patches and graphs\<close>

text \<open>
  In the examples a value is a number or a \<^verbatim>\<open>BigInt\<close>; \<^verbatim>\<open>JSON.stringify\<close> accepts the
  first and throws on the second. \<open>world\<close> is the list of the names of the nodes invoked
  so far: every example node appends its own name when it is called.
\<close>

datatype jsval = Num int | BigInt int

fun jsonable :: "jsval \<Rightarrow> bool" where
  "jsonable (Num n) = True"
| "jsonable (BigInt n) = False"

definition nodeA :: "(jsval, string list) Node" where
  "nodeA w c ts =
     (Result (RunResult (Some (Static [''x'' \<mapsto> Num 1])) (Some ''B'')), w @ [''A''])"

definition nodeB :: "(jsval, string list) Node" where
  "nodeB w c ts = (Void, w @ [''B''])"

definition nodeC :: "(jsval, string list) Node" where
  "nodeC w c ts = (Void, w @ [''C''])"

definition nodeToZ :: "(jsval, string list) Node" where
  "nodeToZ w c ts =
     (Result (RunResult (Some (Static [''x'' \<mapsto> Num 1])) (Some ''Z'')), w @ [''A''])"


text \<open>Two function patches that throw: always, and once the key \<^verbatim>\<open>x\<close> is set.\<close>

definition alwaysThrows ::
  "string list \<Rightarrow> jsval ctx \<Rightarrow> (jsval exn + jsval ctx) \<times> string list" where
  "alwaysThrows w c = (Inl (Thrown (Num 7)), w)"

definition setsXOnce ::
  "string list \<Rightarrow> jsval ctx \<Rightarrow> (jsval exn + jsval ctx) \<times> string list" where
  "setsXOnce w c =
     (if c ''x'' = None then (Inr [''x'' \<mapsto> Num 1], w) else (Inl (Thrown (Num 7)), w))"



text \<open>A function patch that counts its own calls in a \<open>world\<close> that is a number.\<close>

definition bump :: "nat \<Rightarrow> int ctx \<Rightarrow> (int exn + int ctx) \<times> nat" where
  "bump w c = (Inr [''n'' \<mapsto> (case c ''n'' of None \<Rightarrow> 1 | Some n \<Rightarrow> n + 1)], Suc w)"

text \<open>Scenario 1: A patches \<^verbatim>\<open>{x: 1}\<close> and names B, B returns nothing.\<close>

definition builderAB :: "(jsval, string list) graph" where
  "builderAB = edge ''A'' ''B'' (node ''B'' nodeB (node ''A'' nodeA (new_graph [])))"

definition graphAB :: "(jsval, string list) graph" where
  "graphAB = snd (setStart ''A'' builderAB)"

text \<open>Scenario 4: the chain A, B, C with both edges wired; B returns nothing.\<close>

definition builderABC :: "(jsval, string list) graph" where
  "builderABC =
     edge ''B'' ''C'' (edge ''A'' ''B''
       (node ''C'' nodeC (node ''B'' nodeB (node ''A'' nodeA (new_graph [])))))"

definition graphABC :: "(jsval, string list) graph" where
  "graphABC = snd (setStart ''A'' builderABC)"





text \<open>A names Z, the edge from A to Z is wired, and no node is registered as Z.\<close>

definition builderWiredZ :: "(jsval, string list) graph" where
  "builderWiredZ = edge ''A'' ''Z'' (node ''A'' nodeToZ (new_graph []))"

definition graphWiredZ :: "(jsval, string list) graph" where
  "graphWiredZ = snd (setStart ''A'' builderWiredZ)"



text \<open>The graph of scenario 1 started at B, a node with no outgoing edge.\<close>

definition graphAtB :: "(jsval, string list) graph" where
  "graphAtB = snd (setStart ''B'' builderAB)"



section \<open>Properties\<close>

subsection \<open>Auxiliary facts\<close>

lemmas engine_defs =
  run_def step_def step_try_def availableTransitions_def setStart_def edge_def node_def
  new_graph_def current_def set_add_def

lemma stringifiable_empty [simp]: "stringifiable json Map.empty"
  by (simp add: stringifiable_def)

lemma stringifiable_upd [simp]:
  "c k = None \<Longrightarrow> stringifiable json (c(k \<mapsto> v)) = (json v \<and> stringifiable json c)"
  by (simp add: stringifiable_def)

lemma stringifiable_updI [simp]:
  "json v \<Longrightarrow> stringifiable json c \<Longrightarrow> stringifiable json (c(k \<mapsto> v))"
  by (auto simp add: stringifiable_def ran_def)


lemma map_add_shallow_merge: "c ++ p = shallow_merge c p"
  by (rule ext) (auto simp: shallow_merge_def map_add_def split: option.splits)

lemma run_loop_stop:
  assumes "step json patch g = (Inr False, g')"
  shows "run_loop json patch g = Some (Inr (g_context g'), g')"
  using assms by (subst run_loop.simps) simp

lemma run_loop_continue:
  assumes "step json patch g = (Inr True, g')"
  shows "run_loop json patch g = run_loop json patch g'"
  using assms by (subst run_loop.simps) simp



text \<open>Past lines 137 and 138, \<^verbatim>\<open>step\<close> is its \<^verbatim>\<open>try\<close> block with the \<^verbatim>\<open>catch\<close>.\<close>

lemma step_past_merge:
  assumes "applyPatch (g_context h) patch (world h) = (Inr c1, w1)"
      and "stringifiable json c1"
  shows "step json patch h =
           (case step_try json (h\<lparr>g_context := c1, world := w1\<rparr>) of
              (Inl err, h') \<Rightarrow> (Inr False, h')
            | (Inr b, h') \<Rightarrow> (Inr b, h'))"
  using assms by (simp add: step_def)





lemma map_add_twice: "c ++ p ++ p = c ++ p"
  by (rule ext) (simp add: map_add_def split: option.splits)

lemma edge_twice: "edge l r (edge l r g) = edge l r g"
  by (cases "g_transitions g l") (simp_all add: edge_def set_add_def)

lemma edge_repeated: "(edge l r ^^ Suc n) g = edge l r g"
  by (induction n) (simp_all add: edge_twice)









subsection \<open>Claims\<close>




text \<open>
  C2: \<^verbatim>\<open>run(P)\<close> merges \<open>P\<close> exactly once and then steps with no further patch. The source
  does not: the loop is \<^verbatim>\<open>while (await this.step(context)) {}\<close>, so \<open>P\<close> is merged again
  at the start of every step, although the comment above \<^verbatim>\<open>step\<close> warns against exactly
  that. On the graph of scenario 1 with the initial patch \<^verbatim>\<open>{x: 0}\<close>, A sets \<^verbatim>\<open>x\<close> to 1 and
  the second step sets it back to 0 before B runs; merging once, as the claim says, ends
  with \<^verbatim>\<open>x\<close> at 1.
\<close>

theorem run_reapplies_initial_patch:
  "run jsonable (Some (Static [''x'' \<mapsto> Num 0])) graphAB =
     Some (Inr [''x'' \<mapsto> Num 0],
           graphAB\<lparr>g_context := [''x'' \<mapsto> Num 0], g_currentNode := Some (Some nodeB, ''B''),
                     world := [''A'', ''B'']\<rparr>)
   \<and> run_merge_once jsonable (Some (Static [''x'' \<mapsto> Num 0])) graphAB =
     Some (Inr [''x'' \<mapsto> Num 1],
           graphAB\<lparr>g_context := [''x'' \<mapsto> Num 1], g_currentNode := Some (Some nodeB, ''B''),
                     world := [''A'', ''B'']\<rparr>)"
  by (simp add: run_merge_once_def engine_defs graphAB_def builderAB_def nodeA_def nodeB_def run_loop.simps)

text \<open>
  C3: a transition to a name that is not in the node registry halts the run at validation
  time, \<^verbatim>\<open>step\<close> answers \<^verbatim>\<open>false\<close>, and the pointer does not move to that name. The source
  validates the name against the outgoing set of the active node only. Here the edge from
  A to Z is wired and Z was never registered: \<^verbatim>\<open>step\<close> answers \<^verbatim>\<open>true\<close> and the pointer
  moves to Z with an \<^verbatim>\<open>undefined\<close> node; the run stops one step later, on the
  \<^verbatim>\<open>TypeError\<close> of the call on \<^verbatim>\<open>undefined\<close>.
\<close>

theorem step_advances_to_unregistered_node:
  "setStart ''A'' builderWiredZ = (Inr (), graphWiredZ)
   \<and> g_nodes graphWiredZ ''Z'' = None
   \<and> step jsonable None graphWiredZ =
       (Inr True, graphWiredZ\<lparr>g_context := [''x'' \<mapsto> Num 1], g_currentNode := Some (None, ''Z''),
                              world := [''A'']\<rparr>)
   \<and> current (snd (step jsonable None graphWiredZ)) = Some ''Z''
   \<and> fst (step jsonable None (snd (step jsonable None graphWiredZ))) = Inr False"
  by (simp add: engine_defs graphWiredZ_def builderWiredZ_def nodeToZ_def)




text \<open>
  C5: \<^verbatim>\<open>applyPatch\<close> is exactly shallow merge. With a static partial mapping \<open>p\<close> the result
  is \<open>c\<close> with every key of \<open>p\<close> overwritten and every other key unchanged; with a
  function patch \<open>f\<close> the result is \<open>c\<close> shallow-merged with what \<open>f\<close> returns on the
  snapshot \<open>c\<close>, the outcome and the state of the world being those of one call of \<open>f\<close>
  on \<open>c\<close> (a throw of \<open>f\<close> is the throw of \<^verbatim>\<open>applyPatch\<close>); with no patch the result is \<open>c\<close>.
\<close>

theorem applyPatch_is_shallow_merge:
  "applyPatch c (Some (Static p)) w = (Inr (shallow_merge c p), w)
   \<and> applyPatch c (Some (PatchFn f)) w =
       (case f w c of
          (Inl e, w') \<Rightarrow> (Inl e, w')
        | (Inr q, w') \<Rightarrow> (Inr (shallow_merge c q), w'))
   \<and> applyPatch c None w = (Inr c, w)"
  by (simp add: map_add_shallow_merge split: prod.splits sum.splits)

theorem applyPatch_is_shallow_merge_witness:
  "(\<exists>c'. applyPatch [''x'' \<mapsto> 1, ''y'' \<mapsto> 2] (Some (Static [''y'' \<mapsto> 5, ''z'' \<mapsto> 7])) (0::nat)
            = (Inr c', 0)
          \<and> c' ''x'' = Some (1::int) \<and> c' ''y'' = Some 5 \<and> c' ''z'' = Some 7 \<and> c' ''q'' = None)
   \<and> (\<exists>c'. applyPatch [''x'' \<mapsto> 1, ''n'' \<mapsto> 4] (Some (PatchFn bump)) 0 = (Inr c', 1)
          \<and> c' ''x'' = Some 1 \<and> c' ''n'' = Some 5)"
  using applyPatch_is_shallow_merge
          [of "[''x'' \<mapsto> 1, ''y'' \<mapsto> 2]" "[''y'' \<mapsto> 5, ''z'' \<mapsto> 7]" "0::nat" bump]
        applyPatch_is_shallow_merge
          [of "[''x'' \<mapsto> 1, ''n'' \<mapsto> 4]" "[''y'' \<mapsto> 5, ''z'' \<mapsto> 7]" "0::nat" bump]
  by (simp add: shallow_merge_def bump_def)

text \<open>
  C6: for a name that is not in the registry \<^verbatim>\<open>setStart\<close> throws an \<^verbatim>\<open>Error\<close> (it is a
  synchronous method, so the error reaches the builder's caller before any \<^verbatim>\<open>run\<close> or
  \<^verbatim>\<open>step\<close>) and leaves the graph, and with it the current pointer, as it was; for a
  registered name it sets the current pointer to that node and returns the builder.
\<close>

theorem setStart_checks_registry:
  "(g_nodes g name = None \<longrightarrow>
      (\<exists>msg. setStart name g = (Inl (Error msg), g)))
   \<and> (\<forall>nd. g_nodes g name = Some nd \<longrightarrow>
         setStart name g = (Inr (), g\<lparr>g_currentNode := Some (Some nd, name)\<rparr>)
         \<and> current (snd (setStart name g)) = Some name)"
  by (simp add: setStart_def current_def)

theorem setStart_checks_registry_witness:
  "g_nodes builderAB ''Q'' = None
   \<and> fst (setStart ''Q'' builderAB) =
       Inl (Error (''Cannot start from node that has not been registered in graph. '' @
                   ''Start should be after adding nodes.''))
   \<and> snd (setStart ''Q'' builderAB) = builderAB
   \<and> current (snd (setStart ''Q'' builderAB)) = None
   \<and> g_nodes builderAB ''A'' = Some nodeA
   \<and> setStart ''A'' builderAB = (Inr (), builderAB\<lparr>g_currentNode := Some (Some nodeA, ''A'')\<rparr>)
   \<and> current (snd (setStart ''A'' builderAB)) = Some ''A''"
proof -
  have q: "g_nodes builderAB ''Q'' = None"
    by (simp add: engine_defs builderAB_def)
  have a: "g_nodes builderAB ''A'' = Some nodeA"
    by (simp add: engine_defs builderAB_def)
  have n: "current builderAB = None"
    by (simp add: engine_defs builderAB_def)
  have m: "fst (setStart ''Q'' builderAB) =
       Inl (Error (''Cannot start from node that has not been registered in graph. '' @
                   ''Start should be after adding nodes.''))"
    by (simp add: setStart_def q)
  from setStart_checks_registry [of builderAB "''Q''"] q
  obtain msg where "setStart ''Q'' builderAB = (Inl (Error msg), builderAB)" by blast
  then have "snd (setStart ''Q'' builderAB) = builderAB" by simp
  moreover from setStart_checks_registry [of builderAB "''A''"] a
  have "setStart ''A'' builderAB = (Inr (), builderAB\<lparr>g_currentNode := Some (Some nodeA, ''A'')\<rparr>)
         \<and> current (snd (setStart ''A'' builderAB)) = Some ''A''" by blast
  ultimately show ?thesis using q a n m by (simp add: current_def)
qed

text \<open>
  C7: in a step where the method of the active node returns nothing (\<^verbatim>\<open>undefined\<close>, or a
  result with neither patch nor transition), \<^verbatim>\<open>step\<close> returns \<^verbatim>\<open>false\<close>, the context is
  the one the node was called with (every patch applied so far), the loop of \<^verbatim>\<open>run\<close>
  resolves with it, and the world is as that one call left it: no further node is
  invoked, whatever edges are wired from the active node. (The node is called with a
  context that line 138 has serialised.)
\<close>

theorem step_void_terminates:
  assumes "applyPatch (g_context g) patch (world g) = (Inr c1, w1)"
      and "stringifiable json c1"
      and "g_currentNode g = Some (Some nxt, key)"
      and "nxt w1 c1 (case g_transitions g key of None \<Rightarrow> [] | Some s \<Rightarrow> s) = (r, w2)"
      and "r = Void \<or> r = Result (RunResult None None)"
  shows "step json patch g = (Inr False, g\<lparr>g_context := c1, world := w2\<rparr>)
       \<and> run_loop json patch g = Some (Inr c1, g\<lparr>g_context := c1, world := w2\<rparr>)"
proof -
  have s: "step json patch g = (Inr False, g\<lparr>g_context := c1, world := w2\<rparr>)"
    using assms(2,3,4,5)
    by (auto simp add: step_past_merge [OF assms(1,2)] step_try_def availableTransitions_def)
  from run_loop_stop [OF s] s show ?thesis by simp
qed

text \<open>Scenario 4 of the specification: in the chain A, B, C the node B returns nothing;
  the nodes invoked are A and B, and the pointer stays at B.\<close>

theorem step_void_terminates_witness:
  "setStart ''A'' builderABC = (Inr (), graphABC)
   \<and> g_transitions graphABC ''B'' = Some [''C'']
   \<and> run jsonable None graphABC =
       Some (Inr [''x'' \<mapsto> Num 1],
             graphABC\<lparr>g_context := [''x'' \<mapsto> Num 1], g_currentNode := Some (Some nodeB, ''B''),
                        world := [''A'', ''B'']\<rparr>)"
proof -
  let ?gB = "graphABC\<lparr>g_context := [''x'' \<mapsto> Num 1], g_currentNode := Some (Some nodeB, ''B''),
                        world := [''A'']\<rparr>"
  have start: "setStart ''A'' builderABC = (Inr (), graphABC)"
    by (simp add: engine_defs graphABC_def builderABC_def)
  have tr: "g_transitions graphABC ''B'' = Some [''C'']"
    by (simp add: engine_defs graphABC_def builderABC_def)
  have s1: "step jsonable None graphABC = (Inr True, ?gB)"
    by (simp add: engine_defs graphABC_def builderABC_def nodeA_def)
  have a: "applyPatch (g_context ?gB) None (world ?gB) = (Inr [''x'' \<mapsto> Num 1], [''A''])"
    by simp
  have j: "stringifiable jsonable [''x'' \<mapsto> Num 1]"
    by simp
  have c: "g_currentNode ?gB = Some (Some nodeB, ''B'')"
    by simp
  have n: "nodeB [''A''] [''x'' \<mapsto> Num 1] (case g_transitions ?gB ''B'' of None \<Rightarrow> [] | Some s \<Rightarrow> s) =
             (Void, [''A'', ''B''])"
    by (simp add: nodeB_def)
  have v: "(Void :: (jsval, string list) nodeRes) = Void
           \<or> (Void :: (jsval, string list) nodeRes) = Result (RunResult None None)"
    by simp
  have fin: "?gB\<lparr>g_context := [''x'' \<mapsto> Num 1], world := [''A'', ''B'']\<rparr> =
             graphABC\<lparr>g_context := [''x'' \<mapsto> Num 1], g_currentNode := Some (Some nodeB, ''B''),
                        world := [''A'', ''B'']\<rparr>"
    by simp
  have "run jsonable None graphABC = run_loop jsonable None graphABC"
    by (simp add: run_def graphABC_def builderABC_def setStart_def edge_def node_def new_graph_def)
  also have "\<dots> = run_loop jsonable None ?gB"
    by (rule run_loop_continue [OF s1])
  also have "\<dots> = Some (Inr [''x'' \<mapsto> Num 1], ?gB\<lparr>g_context := [''x'' \<mapsto> Num 1], world := [''A'', ''B'']\<rparr>)"
    by (rule conjunct2 [OF step_void_terminates [OF a j c n v]])
  finally have "run jsonable None graphABC =
       Some (Inr [''x'' \<mapsto> Num 1],
             graphABC\<lparr>g_context := [''x'' \<mapsto> Num 1], g_currentNode := Some (Some nodeB, ''B''),
                        world := [''A'', ''B'']\<rparr>)"
    by (simp only: fin)
  with start tr show ?thesis by (intro conjI)
qed

text \<open>
  C8: registering an edge is idempotent and set-valued. Calling \<^verbatim>\<open>edge(l, r)\<close> any number
  of times greater than zero gives the same graph, hence the same transition table, as
  calling it once; and after \<^verbatim>\<open>edge(a, b)\<close>, \<^verbatim>\<open>edge(a, b)\<close>, \<^verbatim>\<open>edge(a, c)\<close> on a graph where
  \<open>a\<close> had no outgoing edge and is current (set as the start before or after the calls),
  \<^verbatim>\<open>availableTransitions\<close> is a set with exactly the two members \<open>b\<close> and \<open>c\<close>.
\<close>

theorem edge_idempotent:
  "(edge l r ^^ Suc n) g = edge l r g
   \<and> (g_currentNode g = Some (nd, a) \<and> g_transitions g a = None \<and> b \<noteq> c \<longrightarrow>
        (\<exists>s. availableTransitions (edge a c (edge a b (edge a b g))) = Inr (Some s)
             \<and> set s = {b, c} \<and> distinct s \<and> length s = 2))
   \<and> (g_nodes g a = Some nx \<and> g_transitions g a = None \<and> b \<noteq> c \<longrightarrow>
        (\<exists>s. availableTransitions (snd (setStart a (edge a c (edge a b (edge a b g)))))
               = Inr (Some s)
             \<and> set s = {b, c} \<and> distinct s \<and> length s = 2))"
proof (intro conjI impI)
  show "(edge l r ^^ Suc n) g = edge l r g"
    by (rule edge_repeated)
next
  assume "g_currentNode g = Some (nd, a) \<and> g_transitions g a = None \<and> b \<noteq> c"
  then have "availableTransitions (edge a c (edge a b (edge a b g))) = Inr (Some [b, c])"
    by (auto simp add: availableTransitions_def edge_def set_add_def)
  moreover from \<open>g_currentNode g = Some (nd, a) \<and> g_transitions g a = None \<and> b \<noteq> c\<close>
  have "set [b, c] = {b, c} \<and> distinct [b, c] \<and> length [b, c] = 2"
    by auto
  ultimately show "\<exists>s. availableTransitions (edge a c (edge a b (edge a b g))) = Inr (Some s)
             \<and> set s = {b, c} \<and> distinct s \<and> length s = 2"
    by blast
next
  assume h: "g_nodes g a = Some nx \<and> g_transitions g a = None \<and> b \<noteq> c"
  then have "availableTransitions (snd (setStart a (edge a c (edge a b (edge a b g)))))
               = Inr (Some [b, c])"
    by (auto simp add: availableTransitions_def setStart_def edge_def set_add_def)
  moreover from h have "set [b, c] = {b, c} \<and> distinct [b, c] \<and> length [b, c] = 2"
    by auto
  ultimately show "\<exists>s. availableTransitions (snd (setStart a (edge a c (edge a b (edge a b g)))))
               = Inr (Some s)
             \<and> set s = {b, c} \<and> distinct s \<and> length s = 2"
    by blast
qed

text \<open>Scenario 5 of the specification, with \<^verbatim>\<open>setStart\<close> before and after the edges.\<close>

theorem edge_idempotent_witness:
  "(edge ''A'' ''B'' ^^ Suc 2) (new_graph ([]::string list))
      = (edge ''A'' ''B'' (new_graph []) :: (jsval, string list) graph)
   \<and> g_transitions (edge ''A'' ''B'' (edge ''A'' ''B'' (new_graph []) :: (jsval, string list) graph)) ''A''
      = Some [''B'']
   \<and> availableTransitions
       (edge ''A'' ''C'' (edge ''A'' ''B'' (edge ''A'' ''B''
          (snd (setStart ''A'' (node ''A'' nodeA (new_graph [])))))))
      = Inr (Some [''B'', ''C''])
   \<and> availableTransitions
       (snd (setStart ''A'' (edge ''A'' ''C'' (edge ''A'' ''B'' (edge ''A'' ''B''
          (node ''A'' nodeA (new_graph [])))))))
      = Inr (Some [''B'', ''C''])"
proof -
  let ?base = "node ''A'' nodeA (new_graph []) :: (jsval, string list) graph"
  let ?started = "snd (setStart ''A'' ?base)"
  have e: "g_transitions (edge ''A'' ''B'' (edge ''A'' ''B'' (new_graph []) :: (jsval, string list) graph)) ''A''
             = Some [''B'']"
    by (simp add: engine_defs)
  have v1: "availableTransitions (edge ''A'' ''C'' (edge ''A'' ''B'' (edge ''A'' ''B'' ?started)))
          = Inr (Some [''B'', ''C''])"
    by (simp add: engine_defs)
  have v2: "availableTransitions (snd (setStart ''A'' (edge ''A'' ''C'' (edge ''A'' ''B'' (edge ''A'' ''B'' ?base)))))
          = Inr (Some [''B'', ''C''])"
    by (simp add: engine_defs)
  have i: "(edge ''A'' ''B'' ^^ Suc 2) (new_graph ([]::string list))
            = (edge ''A'' ''B'' (new_graph []) :: (jsval, string list) graph)"
    by (rule conjunct1 [OF edge_idempotent])
  show ?thesis
    by (intro conjI) (rule i, rule e, rule v1, rule v2)
qed

text \<open>
  C9, as amended. Before any \<^verbatim>\<open>setStart\<close>, \<^verbatim>\<open>step(patch)\<close> with a patch whose application
  returns a context that \<^verbatim>\<open>JSON.stringify\<close> accepts merges the patch into the context,
  invokes no node (the world is as the application of the patch left it), and returns
  \<^verbatim>\<open>false\<close>; and \<^verbatim>\<open>run(patch)\<close> with an absent or a static patch that merges to such a
  context resolves with the patched context, the world untouched. As written, for
  every patch, the claim fails: see the counterexample after the witness.
\<close>

theorem step_before_setStart:
  assumes "g_currentNode g = None"
      and "applyPatch (g_context g) patch (world g) = (Inr c1, w1)"
      and "stringifiable json c1"
  shows "step json patch g = (Inr False, g\<lparr>g_context := c1, world := w1\<rparr>)
       \<and> (patch = None \<or> (\<exists>p. patch = Some (Static p)) \<longrightarrow>
            w1 = world g
            \<and> run json patch g = Some (Inr c1, g\<lparr>g_context := c1, world := w1\<rparr>))"
proof (intro conjI impI)
  show s: "step json patch g = (Inr False, g\<lparr>g_context := c1, world := w1\<rparr>)"
    using assms(1) by (simp add: step_past_merge [OF assms(2,3)] step_try_def)
next
  assume st: "patch = None \<or> (\<exists>p. patch = Some (Static p))"
  with assms(2) show "w1 = world g" by auto
next
  assume st: "patch = None \<or> (\<exists>p. patch = Some (Static p))"
  let ?g1 = "g\<lparr>g_context := c1, world := w1\<rparr>"
  from st assms(2) have again: "applyPatch (g_context ?g1) patch (world ?g1) = (Inr c1, w1)"
    by (auto simp add: map_add_twice)
  have "g_currentNode ?g1 = None" using assms(1) by simp
  then have "step json patch ?g1 = (Inr False, ?g1)"
    by (simp add: step_past_merge [OF again assms(3)] step_try_def)
  from run_loop_stop [OF this] have "run_loop json patch ?g1 = Some (Inr c1, ?g1)" by simp
  with assms(2,3) show "run json patch g = Some (Inr c1, g\<lparr>g_context := c1, world := w1\<rparr>)"
    by (simp add: run_def)
qed

theorem step_before_setStart_witness:
  "current builderAB = None
   \<and> stringifiable jsonable [''y'' \<mapsto> Num 5]
   \<and> step jsonable (Some (Static [''y'' \<mapsto> Num 5])) builderAB
       = (Inr False, builderAB\<lparr>g_context := [''y'' \<mapsto> Num 5], world := []\<rparr>)
   \<and> run jsonable (Some (Static [''y'' \<mapsto> Num 5])) builderAB
       = Some (Inr [''y'' \<mapsto> Num 5], builderAB\<lparr>g_context := [''y'' \<mapsto> Num 5], world := []\<rparr>)"
proof -
  let ?P = "Some (Static [''y'' \<mapsto> Num 5]) :: (jsval, string list) patch option"
  have n: "g_currentNode builderAB = None"
    by (simp add: engine_defs builderAB_def)
  have a: "applyPatch (g_context builderAB) ?P (world builderAB) = (Inr [''y'' \<mapsto> Num 5], [])"
    by (simp add: engine_defs builderAB_def)
  have j: "stringifiable jsonable [''y'' \<mapsto> Num 5]"
    by simp
  have st: "?P = None \<or> (\<exists>p. ?P = Some (Static p))"
    by simp
  note inst = step_before_setStart [OF n a j]
  have s: "step jsonable ?P builderAB
             = (Inr False, builderAB\<lparr>g_context := [''y'' \<mapsto> Num 5], world := []\<rparr>)"
    by (rule conjunct1 [OF inst])
  have r: "run jsonable ?P builderAB
             = Some (Inr [''y'' \<mapsto> Num 5], builderAB\<lparr>g_context := [''y'' \<mapsto> Num 5], world := []\<rparr>)"
    by (rule conjunct2 [OF mp [OF conjunct2 [OF inst] st]])
  have cur: "current builderAB = None"
    by (simp add: current_def n)
  show ?thesis
    by (intro conjI) (rule cur, rule j, rule s, rule r)
qed

text \<open>
  The counterexample to C9 as written, on a graph with no start node. A function patch
  that throws makes \<^verbatim>\<open>step\<close> reject; the patch \<^verbatim>\<open>{x: 10n}\<close> is merged and then makes \<^verbatim>\<open>step\<close>
  reject with the \<^verbatim>\<open>TypeError\<close> of \<^verbatim>\<open>JSON.stringify\<close>. And with the patch that sets \<^verbatim>\<open>x\<close>
  once, \<^verbatim>\<open>step\<close> merges it and returns \<^verbatim>\<open>false\<close>, but \<^verbatim>\<open>run\<close> rejects: it applies the patch
  itself and its first \<^verbatim>\<open>step\<close> applies it again.
\<close>

theorem run_before_setStart_rejects:
  "current builderAB = None
   \<and> step jsonable (Some (PatchFn alwaysThrows)) builderAB = (Inl (Thrown (Num 7)), builderAB)
   \<and> step jsonable (Some (Static [''x'' \<mapsto> BigInt 10])) builderAB
       = (Inl TypeError, builderAB\<lparr>g_context := [''x'' \<mapsto> BigInt 10]\<rparr>)
   \<and> step jsonable (Some (PatchFn setsXOnce)) builderAB
       = (Inr False, builderAB\<lparr>g_context := [''x'' \<mapsto> Num 1]\<rparr>)
   \<and> run jsonable (Some (PatchFn setsXOnce)) builderAB
       = Some (Inl (Thrown (Num 7)), builderAB\<lparr>g_context := [''x'' \<mapsto> Num 1]\<rparr>)"
  by (simp add: engine_defs builderAB_def alwaysThrows_def setsXOnce_def run_loop.simps)

text \<open>
  C10: the accessor \<^verbatim>\<open>availableTransitions\<close> is partial. With a current node that has no
  registered outgoing edge it returns \<^verbatim>\<open>undefined\<close>, not an empty set; with no current
  node (before \<^verbatim>\<open>setStart\<close>) it throws a \<^verbatim>\<open>TypeError\<close>.
\<close>

theorem availableTransitions_is_partial:
  "(\<forall>nd key. g_currentNode g = Some (nd, key) \<and> g_transitions g key = None \<longrightarrow>
        availableTransitions g = Inr None \<and> availableTransitions g \<noteq> Inr (Some []))
   \<and> (g_currentNode g = None \<longrightarrow> availableTransitions g = Inl TypeError)"
  by (simp add: availableTransitions_def)

theorem availableTransitions_is_partial_witness:
  "current graphAtB = Some ''B''
   \<and> g_transitions graphAtB ''B'' = None
   \<and> availableTransitions graphAtB = Inr None
   \<and> current builderAB = None
   \<and> availableTransitions builderAB = Inl TypeError"
proof -
  have c: "g_currentNode graphAtB = Some (Some nodeB, ''B'')"
    by (simp add: engine_defs graphAtB_def builderAB_def)
  have t: "g_transitions graphAtB ''B'' = None"
    by (simp add: engine_defs graphAtB_def builderAB_def)
  have n: "g_currentNode builderAB = None"
    by (simp add: engine_defs builderAB_def)
  from availableTransitions_is_partial [of graphAtB] availableTransitions_is_partial [of builderAB] c t n
  show ?thesis by (simp add: current_def)
qed

end
